theory Spec2Isabelle
  imports Complex_Main
begin

section \<open>Data model (src/lib/types.ts)\<close>

text \<open>
  Timestamps. The program stores ISO-8601 strings made by \<open>Date.toISOString()\<close> and reads
  them back with \<open>new Date(iso).getTime()\<close>; the string and the millisecond count denote
  the same instant, so a timestamp is modelled by its millisecond count since the epoch.
\<close>

type_synonym timestamp = int

text \<open>
  A \<open>Date\<close> holds a time value of at most 8.64e15 ms on either side of the epoch;
  \<open>new Date(t)\<close> with any other \<open>t\<close> is an invalid date, on which
  \<open>toISOString()\<close> throws a \<open>RangeError\<close>. The times the program builds are sums
  of whole numbers; such a sum is computed exactly whenever it is inside the range and
  lands outside it otherwise, so the test is made on the exact sum. The clock always
  reads a valid time, and so does every stored timestamp.
\<close>

definition validTime :: "int \<Rightarrow> bool" where
  "validTime t \<longleftrightarrow> - 8640000000000000 \<le> t \<and> t \<le> 8640000000000000"

datatype TrackableType = TypeHabit | TypeTask

datatype CompletionSource = Manual | Timer

text \<open>
  The numeric fields of a habit are whole numbers: the only producer of drafts
  (\<open>parsePositiveInteger\<close> in the form) yields results of \<open>Number.parseInt\<close>.
  An optional field (\<open>f?: T\<close>) is an \<open>option\<close>; \<open>undefined\<close> is \<open>None\<close>.
\<close>

record Habit =
  h_id :: string
  h_name :: string
  h_type :: TrackableType
  h_intervalMinutes :: int
  h_targetRepetitionsPerDay :: int
  h_expectedDurationMinutes :: "int option"
  h_notes :: "string option"
  h_createdAt :: timestamp
  h_dueAt :: timestamp
  h_lastCompletedAt :: "timestamp option"
  h_lastReminderAt :: "timestamp option"
  h_archived :: bool

record TimerSession =
  ts_id :: string
  ts_habitId :: string
  ts_startedAt :: timestamp

record CompletionRecord =
  c_id :: string
  c_habitId :: string
  c_completedAt :: timestamp
  c_durationSeconds :: int
  c_source :: CompletionSource

record PostponeRecord =
  p_id :: string
  p_habitId :: string
  p_postponedAt :: timestamp
  p_minutes :: int

record HabitDraft =
  d_name :: string
  d_type :: TrackableType
  d_intervalMinutes :: int
  d_targetRepetitionsPerDay :: int
  d_expectedDurationMinutes :: "int option"
  d_notes :: "string option"

section \<open>The store (src/lib/storage.ts)\<close>

text \<open>
  The four persisted collections. \<open>readCollection\<close> returns the stored array and
  \<open>writeCollection\<close> replaces it, so an operation is a function from the store to the
  store. An operation that throws has still performed the writes that came before the
  throw: every operation returns its outcome together with the store it leaves behind.
  The clock (\<open>new Date()\<close>, \<open>Date.now()\<close>) and the id generator \<open>uid()\<close> are
  inputs: one argument per read of the clock, in the order of the reads.
\<close>

record Store =
  habits :: "Habit list"
  sessions :: "TimerSession list"
  completions :: "CompletionRecord list"
  postpones :: "PostponeRecord list"

text \<open>The errors an operation can throw: the two the program raises itself
  (\<open>Habit not found\<close>, \<open>No active timer for this habit\<close>) and the \<open>RangeError\<close>
  of \<open>toISOString\<close>.\<close>

datatype error = NotFound | NoActiveTimer | RangeError

text \<open>\<open>Array.prototype.findIndex\<close>: the first index whose element satisfies the test;
  the source's \<open>-1\<close> is \<open>None\<close>. \<open>Array.prototype.find\<close> is \<open>List.find\<close>.\<close>

fun findIndex :: "('a \<Rightarrow> bool) \<Rightarrow> 'a list \<Rightarrow> nat option" where
  "findIndex P [] = None"
| "findIndex P (x # xs) = (if P x then Some 0 else map_option Suc (findIndex P xs))"

text \<open>\<open>Array.prototype.sort\<close> with the comparator \<open>a.dueAt - b.dueAt\<close> is a stable sort
  on the key \<open>dueAt\<close>, as \<open>sort_key\<close> is.\<close>

definition listHabits :: "bool \<Rightarrow> Store \<Rightarrow> Habit list" where
  "listHabits includeArchived s =
     (let filtered = (if includeArchived then habits s
                      else filter (\<lambda>h. \<not> h_archived h) (habits s))
      in sort_key h_dueAt filtered)"

definition getHabit :: "string \<Rightarrow> Store \<Rightarrow> Habit option" where
  "getHabit habitId s = find (\<lambda>h. h_id h = habitId) (habits s)"

text \<open>\<open>upsertHabit(draft, existingId?)\<close>. The test \<open>if (existingId)\<close> is on truthiness:
  \<open>undefined\<close> and the empty string both take the creating branch. The creating branch
  reads the clock twice: \<open>now\<close> for \<open>createdAt\<close> and \<open>dateNow\<close> for \<open>dueAt\<close>;
  it throws from \<open>toISOString\<close>, before the habit is pushed and written, when the due
  time is no valid time.\<close>

definition upsertHabit ::
  "HabitDraft \<Rightarrow> string option \<Rightarrow> timestamp \<Rightarrow> timestamp \<Rightarrow> string \<Rightarrow> Store
     \<Rightarrow> (error + Habit) \<times> Store" where
  "upsertHabit draft existingId now dateNow uid s =
     (if existingId \<noteq> None \<and> existingId \<noteq> Some []
      then (case findIndex (\<lambda>h. Some (h_id h) = existingId) (habits s) of
              None \<Rightarrow> (Inl NotFound, s)
            | Some index \<Rightarrow>
                let previous = habits s ! index;
                    next = previous\<lparr>
                      h_name := d_name draft,
                      h_type := d_type draft,
                      h_intervalMinutes := d_intervalMinutes draft,
                      h_targetRepetitionsPerDay := d_targetRepetitionsPerDay draft,
                      h_expectedDurationMinutes := d_expectedDurationMinutes draft,
                      h_notes := d_notes draft\<rparr>
                in (Inr next, s\<lparr>habits := (habits s)[index := next]\<rparr>))
      else if \<not> validTime (dateNow + d_intervalMinutes draft * 60000)
      then (Inl RangeError, s)
      else
        let h = \<lparr>h_id = uid,
                 h_name = d_name draft,
                 h_type = d_type draft,
                 h_intervalMinutes = d_intervalMinutes draft,
                 h_targetRepetitionsPerDay = d_targetRepetitionsPerDay draft,
                 h_expectedDurationMinutes = d_expectedDurationMinutes draft,
                 h_notes = d_notes draft,
                 h_createdAt = now,
                 h_dueAt = dateNow + d_intervalMinutes draft * 60000,
                 h_lastCompletedAt = None,
                 h_lastReminderAt = None,
                 h_archived = False\<rparr>
        in (Inr h, s\<lparr>habits := habits s @ [h]\<rparr>))"

definition archiveHabit :: "string \<Rightarrow> Store \<Rightarrow> Store" where
  "archiveHabit habitId s =
     (let updated = map (\<lambda>h. if h_id h = habitId then h\<lparr>h_archived := True\<rparr> else h) (habits s);
          activeSessions = filter (\<lambda>e. ts_habitId e \<noteq> habitId) (sessions s)
      in s\<lparr>habits := updated, sessions := activeSessions\<rparr>)"

definition startHabitTimer ::
  "string \<Rightarrow> timestamp \<Rightarrow> string \<Rightarrow> Store \<Rightarrow> TimerSession \<times> Store" where
  "startHabitTimer habitId now uid s =
     (case find (\<lambda>e. ts_habitId e = habitId) (sessions s) of
        Some existing \<Rightarrow> (existing, s)
      | None \<Rightarrow>
          let session = \<lparr>ts_id = uid, ts_habitId = habitId, ts_startedAt = now\<rparr>
          in (session, s\<lparr>sessions := sessions s @ [session]\<rparr>))"

section \<open>Time utilities (src/lib/time.ts)\<close>

text \<open>\<open>Math.floor\<close> of a quotient of two numbers is the floor of the real quotient.\<close>

definition minutesBetween :: "timestamp \<Rightarrow> timestamp \<Rightarrow> int" where
  "minutesBetween startMs endMs = max 0 \<lfloor>real_of_int (endMs - startMs) / 60000\<rfloor>"

definition secondsBetween :: "timestamp \<Rightarrow> timestamp \<Rightarrow> int" where
  "secondsBetween startMs endMs = max 0 \<lfloor>real_of_int (endMs - startMs) / 1000\<rfloor>"

section \<open>Completing, stopping a timer, postponing (src/lib/storage.ts)\<close>

record CompleteOptions =
  o_durationSeconds :: "real option"
  o_source :: "CompletionSource option"

text \<open>\<open>completeHabit\<close> throws \<open>Habit not found\<close> before anything else; it builds the
  completion, then the updated habit, whose \<open>dueAt\<close> throws from \<open>toISOString\<close> when
  \<open>now + intervalMinutes * 60000\<close> is no valid time. The three writes come last, so
  either throw leaves the store as it was.\<close>

definition completeHabit ::
  "string \<Rightarrow> CompleteOptions \<Rightarrow> timestamp \<Rightarrow> string \<Rightarrow> Store
     \<Rightarrow> (error + CompletionRecord) \<times> Store" where
  "completeHabit habitId options now uid s =
     (case findIndex (\<lambda>h. h_id h = habitId) (habits s) of
        None \<Rightarrow> (Inl NotFound, s)
      | Some index \<Rightarrow>
          let h = habits s ! index;
              completion = \<lparr>c_id = uid,
                            c_habitId = habitId,
                            c_completedAt = now,
                            c_durationSeconds =
                              max 0 \<lfloor>case o_durationSeconds options of None \<Rightarrow> 0 | Some d \<Rightarrow> d\<rfloor>,
                            c_source = (case o_source options of None \<Rightarrow> Manual | Some x \<Rightarrow> x)\<rparr>;
              h' = h\<lparr>h_lastCompletedAt := Some (c_completedAt completion),
                      h_lastReminderAt := None,
                      h_dueAt := now + h_intervalMinutes h * 60000\<rparr>;
              remainingSessions = filter (\<lambda>e. ts_habitId e \<noteq> habitId) (sessions s)
          in if \<not> validTime (now + h_intervalMinutes h * 60000)
             then (Inl RangeError, s)
             else (Inr completion,
                   s\<lparr>completions := completions s @ [completion],
                     habits := (habits s)[index := h'],
                     sessions := remainingSessions\<rparr>))"

text \<open>\<open>stopHabitTimer\<close> writes the sessions without the found one, then reads the clock
  (\<open>stopNow\<close>) for the duration and calls \<open>completeHabit\<close>, which reads the clock
  again (\<open>now\<close>) and the store as the write left it; an error of \<open>completeHabit\<close>
  comes after that write.\<close>

definition stopHabitTimer ::
  "string \<Rightarrow> timestamp \<Rightarrow> timestamp \<Rightarrow> string \<Rightarrow> Store
     \<Rightarrow> (error + CompletionRecord) \<times> Store" where
  "stopHabitTimer habitId stopNow now uid s =
     (case find (\<lambda>e. ts_habitId e = habitId) (sessions s) of
        None \<Rightarrow> (Inl NoActiveTimer, s)
      | Some session \<Rightarrow>
          let remaining = filter (\<lambda>e. ts_id e \<noteq> ts_id session) (sessions s);
              s1 = s\<lparr>sessions := remaining\<rparr>
          in completeHabit habitId
               \<lparr>o_durationSeconds = Some (real_of_int (secondsBetween (ts_startedAt session) stopNow)),
                o_source = Some Timer\<rparr>
               now uid s1)"

text \<open>\<open>postponeHabit(habitId, minutes)\<close>: \<open>minutes\<close> is any finite number. The new due
  time is built before the two writes and throws from \<open>toISOString\<close> when it is no
  valid time.\<close>

definition postponeHabit ::
  "string \<Rightarrow> real \<Rightarrow> timestamp \<Rightarrow> string \<Rightarrow> Store \<Rightarrow> (error + Habit) \<times> Store" where
  "postponeHabit habitId minutes now uid s =
     (let safeMinutes = max 1 \<lfloor>minutes\<rfloor> in
      case findIndex (\<lambda>h. h_id h = habitId) (habits s) of
        None \<Rightarrow> (Inl NotFound, s)
      | Some index \<Rightarrow>
          let current = habits s ! index;
              currentDue = h_dueAt current;
              baseTime = (if currentDue > now then currentDue else now);
              nextDueAt = baseTime + safeMinutes * 60000;
              postponed = \<lparr>p_id = uid, p_habitId = habitId, p_postponedAt = now,
                           p_minutes = safeMinutes\<rparr>;
              updated = current\<lparr>h_dueAt := nextDueAt, h_lastReminderAt := None\<rparr>
          in if \<not> validTime (baseTime + safeMinutes * 60000)
             then (Inl RangeError, s)
             else (Inr updated,
                   s\<lparr>habits := (habits s)[index := updated],
                     postpones := postpones s @ [postponed]\<rparr>))"

definition setHabitLastReminder :: "string \<Rightarrow> timestamp \<Rightarrow> Store \<Rightarrow> Store" where
  "setHabitLastReminder habitId atIso s =
     (case findIndex (\<lambda>h. h_id h = habitId) (habits s) of
        None \<Rightarrow> s
      | Some index \<Rightarrow>
          s\<lparr>habits := (habits s)[index := (habits s ! index)\<lparr>h_lastReminderAt := Some atIso\<rparr>]\<rparr>)"

section \<open>Relative due time (src/lib/time.ts)\<close>

text \<open>\<open>Math.round\<close> rounds to the nearest whole number, a half towards plus infinity.\<close>

definition Math_round :: "real \<Rightarrow> int" where
  "Math_round x = \<lfloor>x + 1 / 2\<rfloor>"

text \<open>The decimal digits of a non-negative whole number, as a template literal prints it.\<close>

fun numberToString :: "nat \<Rightarrow> string" where
  "numberToString n =
     (if n < 10 then [''0123456789'' ! n]
      else numberToString (n div 10) @ [''0123456789'' ! (n mod 10)])"

declare numberToString.simps [simp del]

definition formatRelativeDue :: "timestamp \<Rightarrow> timestamp \<Rightarrow> string" where
  "formatRelativeDue dueAtIso now =
     (let diffMs = dueAtIso - now;
          absMinutes = \<bar>Math_round (real_of_int diffMs / 60000)\<bar>
      in if absMinutes < 1 then ''now''
         else
           let hours = absMinutes div 60;
               minutes = absMinutes mod 60;
               label = (if hours > 0
                        then numberToString (nat hours) @ ''h '' @ numberToString (nat minutes) @ ''m''
                        else numberToString (nat minutes) @ ''m'')
           in if diffMs < 0 then label @ '' overdue'' else ''in '' @ label)"

section \<open>Scoring (src/lib/score.ts)\<close>

text \<open>
  The scoring of \<open>src/lib/score.ts\<close> is not embedded: it computes in IEEE-754 double
  arithmetic and rounds the outcome to a whole number, so its value depends on the
  rounding of every intermediate operation, which the exact numbers of HOL do not
  have.
\<close>

section \<open>Example data\<close>

definition ex_habit :: Habit where
  "ex_habit = \<lparr>h_id = ''h1'', h_name = ''Drink water'', h_type = TypeHabit,
     h_intervalMinutes = 60, h_targetRepetitionsPerDay = 2,
     h_expectedDurationMinutes = Some 10, h_notes = None,
     h_createdAt = 0, h_dueAt = 3600000,
     h_lastCompletedAt = None, h_lastReminderAt = Some 3660000, h_archived = False\<rparr>"

definition ex_session :: TimerSession where
  "ex_session = \<lparr>ts_id = ''s1'', ts_habitId = ''h1'', ts_startedAt = 4000000\<rparr>"

definition ex_store :: Store where
  "ex_store = \<lparr>habits = [ex_habit], sessions = [ex_session], completions = [], postpones = []\<rparr>"

text \<open>A store whose only habit is archived, and one with a session for a habit that is
  not stored.\<close>

definition ex_archived_store :: Store where
  "ex_archived_store =
     \<lparr>habits = [ex_habit\<lparr>h_archived := True\<rparr>], sessions = [], completions = [], postpones = []\<rparr>"

definition ex_orphan_store :: Store where
  "ex_orphan_store = \<lparr>habits = [], sessions = [ex_session], completions = [], postpones = []\<rparr>"

definition ex_draft :: HabitDraft where
  "ex_draft = \<lparr>d_name = ''Stretch'', d_type = TypeHabit, d_intervalMinutes = 30,
     d_targetRepetitionsPerDay = 1, d_expectedDurationMinutes = None, d_notes = None\<rparr>"

section \<open>Facts about the array helpers\<close>

lemma findIndex_None_iff: "findIndex P xs = None \<longleftrightarrow> (\<forall>x \<in> set xs. \<not> P x)"
  by (induction xs) auto

lemma findIndex_Some_bound: "findIndex P xs = Some i \<Longrightarrow> i < length xs \<and> P (xs ! i)"
  by (induction xs arbitrary: i) (auto split: if_splits)

lemma findIndex_find: "findIndex P xs = Some i \<Longrightarrow> find P xs = Some (xs ! i)"
  by (induction xs arbitrary: i) (auto split: if_splits)

lemma find_update_first:
  "findIndex P xs = Some i \<Longrightarrow> P y \<Longrightarrow> find P (xs[i := y]) = Some y"
  by (induction xs arbitrary: i) (auto split: if_splits)

lemma getHabit_findIndex:
  assumes "getHabit habitId s = Some h"
  shows "\<exists>i. findIndex (\<lambda>h. h_id h = habitId) (habits s) = Some i
            \<and> habits s ! i = h \<and> h_id h = habitId"
proof -
  have "\<And>xs. find (\<lambda>h. h_id h = habitId) xs = Some h
          \<Longrightarrow> \<exists>i. findIndex (\<lambda>h. h_id h = habitId) xs = Some i \<and> xs ! i = h \<and> h_id h = habitId"
  proof -
    fix xs show "find (\<lambda>h. h_id h = habitId) xs = Some h
          \<Longrightarrow> \<exists>i. findIndex (\<lambda>h. h_id h = habitId) xs = Some i \<and> xs ! i = h \<and> h_id h = habitId"
      by (induction xs) (auto split: if_splits)
  qed
  with assms show ?thesis by (simp add: getHabit_def)
qed

lemma getHabit_None_iff: "getHabit habitId s = None \<longleftrightarrow> habitId \<notin> h_id ` set (habits s)"
  by (auto simp: getHabit_def find_None_iff)

lemma findIndex_getHabit_None:
  "findIndex (\<lambda>h. h_id h = habitId) (habits s) = None \<longleftrightarrow> getHabit habitId s = None"
  by (auto simp: findIndex_None_iff getHabit_None_iff)

lemma completeHabit_absent:
  "getHabit habitId s = None \<Longrightarrow> completeHabit habitId options now uid s = (Inl NotFound, s)"
  using findIndex_getHabit_None [of habitId s] by (simp add: completeHabit_def)

lemma completeHabit_present:
  assumes "getHabit habitId s = Some h"
      and "validTime (now + h_intervalMinutes h * 60000)"
  shows "\<exists>i c. findIndex (\<lambda>h. h_id h = habitId) (habits s) = Some i
           \<and> c = \<lparr>c_id = uid, c_habitId = habitId, c_completedAt = now,
                  c_durationSeconds =
                    max 0 \<lfloor>case o_durationSeconds options of None \<Rightarrow> 0 | Some d \<Rightarrow> d\<rfloor>,
                  c_source = (case o_source options of None \<Rightarrow> Manual | Some x \<Rightarrow> x)\<rparr>
           \<and> completeHabit habitId options now uid s =
               (Inr c,
                s\<lparr>completions := completions s @ [c],
                  habits := (habits s)[i := h\<lparr>h_lastCompletedAt := Some now,
                                             h_lastReminderAt := None,
                                             h_dueAt := now + h_intervalMinutes h * 60000\<rparr>],
                  sessions := filter (\<lambda>e. ts_habitId e \<noteq> habitId) (sessions s)\<rparr>)"
  using getHabit_findIndex [OF assms(1)] assms(2) by (auto simp: completeHabit_def Let_def)

lemma completeHabit_overflow:
  assumes "getHabit habitId s = Some h"
      and "\<not> validTime (now + h_intervalMinutes h * 60000)"
  shows "completeHabit habitId options now uid s = (Inl RangeError, s)"
  using getHabit_findIndex [OF assms(1)] assms(2) by (auto simp: completeHabit_def Let_def)

lemma getHabit_update:
  assumes "findIndex (\<lambda>h. h_id h = habitId) (habits s) = Some i" and "h_id h' = habitId"
      and "habits s' = (habits s)[i := h']"
  shows "getHabit habitId s' = Some h'"
  using assms by (simp add: getHabit_def find_update_first)

section \<open>Completing a habit\<close>

text \<open>
  C1. For a habit present in the store, \<open>completeHabit\<close> succeeds exactly when
  \<open>now + intervalMinutes\<close> minutes is a valid time, and every successful call appends
  exactly one completion record whose \<open>completedAt\<close> is the call's \<open>now\<close> and leaves
  the habit with \<open>lastCompletedAt = now\<close>, \<open>lastReminderAt\<close> cleared and
  \<open>dueAt = completedAt + intervalMinutes\<close> minutes (60000 ms each), whatever the
  previous \<open>dueAt\<close> was.
\<close>

theorem completeHabit_advances_dueAt:
  assumes present: "getHabit habitId s = Some h"
  shows "((\<exists>c. fst (completeHabit habitId options now uid s) = Inr c)
            \<longleftrightarrow> validTime (now + h_intervalMinutes h * 60000))
       \<and> (\<forall>c. fst (completeHabit habitId options now uid s) = Inr c
            \<longrightarrow> c_habitId c = habitId
              \<and> c_completedAt c = now
              \<and> completions (snd (completeHabit habitId options now uid s)) = completions s @ [c]
              \<and> getHabit habitId (snd (completeHabit habitId options now uid s))
                  = Some (h\<lparr>h_lastCompletedAt := Some now,
                             h_lastReminderAt := None,
                             h_dueAt := c_completedAt c + h_intervalMinutes h * 60000\<rparr>))"
proof (cases "validTime (now + h_intervalMinutes h * 60000)")
  case False
  from completeHabit_overflow [OF present False, of options uid] False
  show ?thesis by simp
next
  case True
  from completeHabit_present [OF present True, of uid options]
  obtain i c where i: "findIndex (\<lambda>h. h_id h = habitId) (habits s) = Some i"
    and c: "c_habitId c = habitId" "c_completedAt c = now"
    and r: "completeHabit habitId options now uid s =
               (Inr c,
                s\<lparr>completions := completions s @ [c],
                  habits := (habits s)[i := h\<lparr>h_lastCompletedAt := Some now,
                                             h_lastReminderAt := None,
                                             h_dueAt := now + h_intervalMinutes h * 60000\<rparr>],
                  sessions := filter (\<lambda>e. ts_habitId e \<noteq> habitId) (sessions s)\<rparr>)"
    by auto
  from getHabit_findIndex [OF present] have idh: "h_id h = habitId" by auto
  have "getHabit habitId (snd (completeHabit habitId options now uid s))
          = Some (h\<lparr>h_lastCompletedAt := Some now, h_lastReminderAt := None,
                     h_dueAt := now + h_intervalMinutes h * 60000\<rparr>)"
    by (rule getHabit_update [OF i]) (simp_all add: r idh)
  with c r True show ?thesis by simp
qed

theorem completeHabit_advances_dueAt_witness:
  "getHabit ''h1'' ex_store = Some ex_habit
   \<and> h_dueAt ex_habit < 90000000
   \<and> validTime (90000000 + h_intervalMinutes ex_habit * 60000)
   \<and> fst (completeHabit ''h1'' \<lparr>o_durationSeconds = None, o_source = None\<rparr> 90000000 ''c1'' ex_store)
       = Inr \<lparr>c_id = ''c1'', c_habitId = ''h1'', c_completedAt = 90000000,
               c_durationSeconds = 0, c_source = Manual\<rparr>
   \<and> map c_completedAt (completions (snd (completeHabit ''h1''
         \<lparr>o_durationSeconds = None, o_source = None\<rparr> 90000000 ''c1'' ex_store))) = [90000000]
   \<and> map_option h_dueAt (getHabit ''h1'' (snd (completeHabit ''h1''
         \<lparr>o_durationSeconds = None, o_source = None\<rparr> 90000000 ''c1'' ex_store)))
       = Some 93600000"
proof -
  have g: "getHabit ''h1'' ex_store = Some ex_habit"
    by (simp add: getHabit_def ex_store_def ex_habit_def)
  have v: "validTime (90000000 + h_intervalMinutes ex_habit * 60000)"
    by (simp add: validTime_def ex_habit_def)
  have f: "fst (completeHabit ''h1'' \<lparr>o_durationSeconds = None, o_source = None\<rparr> 90000000 ''c1'' ex_store)
       = Inr \<lparr>c_id = ''c1'', c_habitId = ''h1'', c_completedAt = 90000000,
               c_durationSeconds = 0, c_source = Manual\<rparr>"
    by (simp add: completeHabit_def ex_store_def ex_habit_def validTime_def Let_def)
  have c: "completions ex_store = []" by (simp add: ex_store_def)
  from completeHabit_advances_dueAt [OF g, of "\<lparr>o_durationSeconds = None, o_source = None\<rparr>"
      90000000 "''c1''"] g v f c
  show ?thesis by (simp add: ex_habit_def)
qed

section \<open>Postponing a habit\<close>

text \<open>
  With a trillion minutes the new due time is no valid time: the call throws a
  \<open>RangeError\<close> and leaves the store as it was, the due time not pushed and no postpone
  record appended.
\<close>

theorem postponeHabit_overflow_counterexample:
  "getHabit ''h1'' ex_store = Some ex_habit
   \<and> postponeHabit ''h1'' 1000000000000 1000000 ''p1'' ex_store = (Inl RangeError, ex_store)"
  by (simp add: getHabit_def postponeHabit_def ex_store_def ex_habit_def validTime_def Let_def)

text \<open>
  C3, as the code has it. For a habit present in the store, \<open>postponeHabit\<close> coerces the
  minutes to the whole number \<open>m = max 1 (floor minutes)\<close>, so \<open>m \<ge> 1\<close> and \<open>m = 1\<close>
  for \<open>minutes < 1\<close>. The call succeeds exactly when \<open>max dueAt now + m\<close> minutes is a
  valid time; then that is the new \<open>dueAt\<close>, that is \<open>dueAt + m\<close> for a habit not yet
  due and \<open>now + m\<close> for an overdue one, a postpone record with the coerced minutes is
  appended and \<open>lastReminderAt\<close> is cleared. Otherwise the call throws a \<open>RangeError\<close>
  and writes nothing.
\<close>

theorem postponeHabit_pushes_dueAt:
  assumes present: "getHabit habitId s = Some h"
  shows "\<exists>m h'. m = max 1 \<lfloor>minutes\<rfloor> \<and> 1 \<le> m \<and> (minutes < 1 \<longrightarrow> m = 1)
           \<and> h' = h\<lparr>h_dueAt := max (h_dueAt h) now + m * 60000, h_lastReminderAt := None\<rparr>
           \<and> ((\<exists>u. fst (postponeHabit habitId minutes now uid s) = Inr u)
                 \<longleftrightarrow> validTime (max (h_dueAt h) now + m * 60000))
           \<and> (validTime (max (h_dueAt h) now + m * 60000)
                 \<longrightarrow> fst (postponeHabit habitId minutes now uid s) = Inr h'
                   \<and> getHabit habitId (snd (postponeHabit habitId minutes now uid s)) = Some h'
                   \<and> (now < h_dueAt h \<longrightarrow> h_dueAt h' = h_dueAt h + m * 60000)
                   \<and> (h_dueAt h \<le> now \<longrightarrow> h_dueAt h' = now + m * 60000)
                   \<and> postpones (snd (postponeHabit habitId minutes now uid s))
                       = postpones s @ [\<lparr>p_id = uid, p_habitId = habitId, p_postponedAt = now,
                                         p_minutes = m\<rparr>])
           \<and> (\<not> validTime (max (h_dueAt h) now + m * 60000)
                 \<longrightarrow> postponeHabit habitId minutes now uid s = (Inl RangeError, s))"
proof -
  from getHabit_findIndex [OF present]
  obtain i where i: "findIndex (\<lambda>h. h_id h = habitId) (habits s) = Some i"
    and hi: "habits s ! i = h" and idh: "h_id h = habitId" by auto
  define m where "m = max 1 \<lfloor>minutes\<rfloor>"
  define h' where "h' = h\<lparr>h_dueAt := max (h_dueAt h) now + m * 60000, h_lastReminderAt := None\<rparr>"
  have base: "(if h_dueAt h > now then h_dueAt h else now) = max (h_dueAt h) now" by simp
  have m1: "1 \<le> m" "minutes < 1 \<longrightarrow> m = 1"
    by (auto simp: m_def max_def)
  have bad: "postponeHabit habitId minutes now uid s = (Inl RangeError, s)"
    if "\<not> validTime (max (h_dueAt h) now + m * 60000)"
    using that i hi by (auto simp: postponeHabit_def Let_def m_def max_def split: if_splits)
  have good: "postponeHabit habitId minutes now uid s =
      (Inr h', s\<lparr>habits := (habits s)[i := h'],
                 postpones := postpones s @ [\<lparr>p_id = uid, p_habitId = habitId,
                                              p_postponedAt = now, p_minutes = m\<rparr>]\<rparr>)"
    if "validTime (max (h_dueAt h) now + m * 60000)"
    using that i hi by (auto simp: postponeHabit_def Let_def m_def h'_def max_def split: if_splits)
  have g: "getHabit habitId (snd (postponeHabit habitId minutes now uid s)) = Some h'"
    if "validTime (max (h_dueAt h) now + m * 60000)"
    by (rule getHabit_update [OF i]) (simp_all add: good [OF that] idh h'_def)
  have due: "(now < h_dueAt h \<longrightarrow> h_dueAt h' = h_dueAt h + m * 60000)
           \<and> (h_dueAt h \<le> now \<longrightarrow> h_dueAt h' = now + m * 60000)"
    by (simp add: h'_def)
  have iff: "(\<exists>u. fst (postponeHabit habitId minutes now uid s) = Inr u)
                 \<longleftrightarrow> validTime (max (h_dueAt h) now + m * 60000)"
    using good bad by (cases "validTime (max (h_dueAt h) now + m * 60000)") simp_all
  have all: "m = max 1 \<lfloor>minutes\<rfloor> \<and> 1 \<le> m \<and> (minutes < 1 \<longrightarrow> m = 1)
           \<and> h' = h\<lparr>h_dueAt := max (h_dueAt h) now + m * 60000, h_lastReminderAt := None\<rparr>
           \<and> ((\<exists>u. fst (postponeHabit habitId minutes now uid s) = Inr u)
                 \<longleftrightarrow> validTime (max (h_dueAt h) now + m * 60000))
           \<and> (validTime (max (h_dueAt h) now + m * 60000)
                 \<longrightarrow> fst (postponeHabit habitId minutes now uid s) = Inr h'
                   \<and> getHabit habitId (snd (postponeHabit habitId minutes now uid s)) = Some h'
                   \<and> (now < h_dueAt h \<longrightarrow> h_dueAt h' = h_dueAt h + m * 60000)
                   \<and> (h_dueAt h \<le> now \<longrightarrow> h_dueAt h' = now + m * 60000)
                   \<and> postpones (snd (postponeHabit habitId minutes now uid s))
                       = postpones s @ [\<lparr>p_id = uid, p_habitId = habitId, p_postponedAt = now,
                                         p_minutes = m\<rparr>])
           \<and> (\<not> validTime (max (h_dueAt h) now + m * 60000)
                 \<longrightarrow> postponeHabit habitId minutes now uid s = (Inl RangeError, s))"
    using m1 iff good g due bad m_def h'_def by simp
  then show ?thesis by blast
qed

theorem postponeHabit_pushes_dueAt_witness:
  "getHabit ''h1'' ex_store = Some ex_habit
   \<and> validTime (3600000 + 2 * 60000)
   \<and> map_option h_dueAt (getHabit ''h1'' (snd (postponeHabit ''h1'' (5 / 2) 1000000 ''p1'' ex_store)))
       = Some (3600000 + 2 * 60000)
   \<and> map p_minutes (postpones (snd (postponeHabit ''h1'' (5 / 2) 1000000 ''p1'' ex_store))) = [2]
   \<and> validTime (9000000 + 1 * 60000)
   \<and> map_option h_dueAt (getHabit ''h1'' (snd (postponeHabit ''h1'' (- 3) 9000000 ''p1'' ex_store)))
       = Some (9000000 + 1 * 60000)
   \<and> map p_minutes (postpones (snd (postponeHabit ''h1'' (- 3) 9000000 ''p1'' ex_store))) = [1]"
proof -
  have g: "getHabit ''h1'' ex_store = Some ex_habit"
    by (simp add: getHabit_def ex_store_def ex_habit_def)
  have f: "\<lfloor>5 / 2 :: real\<rfloor> = 2" by linarith
  have p: "postpones ex_store = []" by (simp add: ex_store_def)
  have v: "validTime 3720000" "validTime 9060000" by (simp_all add: validTime_def)
  show ?thesis
    using postponeHabit_pushes_dueAt [OF g, of "5 / 2" 1000000 "''p1''"]
          postponeHabit_pushes_dueAt [OF g, of "- 3" 9000000 "''p1''"]
    by (simp add: g f p v ex_habit_def)
qed

section \<open>Completing an archived or unknown habit\<close>

text \<open>
  The only habit of the store is archived, so the listing of active habits is empty;
  yet completing it succeeds, records a completion and advances its due time.
\<close>

theorem completeHabit_archived_counterexample:
  "listHabits False ex_archived_store = []
   \<and> fst (completeHabit ''h1'' \<lparr>o_durationSeconds = None, o_source = None\<rparr> 90000000 ''c1''
           ex_archived_store)
       = Inr \<lparr>c_id = ''c1'', c_habitId = ''h1'', c_completedAt = 90000000,
               c_durationSeconds = 0, c_source = Manual\<rparr>
   \<and> map h_dueAt (habits (snd (completeHabit ''h1'' \<lparr>o_durationSeconds = None, o_source = None\<rparr>
           90000000 ''c1'' ex_archived_store))) = [93600000]"
  by (simp add: listHabits_def completeHabit_def ex_archived_store_def ex_habit_def validTime_def
        Let_def)

text \<open>
  C4, as the code has it. \<open>completeHabit\<close> looks the id up among all stored habits and
  never reads \<open>archived\<close>: it fails with \<open>NotFound\<close> exactly when the id is absent from the
  stored habits, archived ones included, and then leaves the store unchanged. For a habit
  whose record exists with \<open>archived = true\<close> it does what it does for any stored habit:
  when \<open>now + intervalMinutes\<close> minutes is a valid time it succeeds, appends a completion
  and advances \<open>dueAt\<close>; otherwise it throws a \<open>RangeError\<close> and writes nothing.
\<close>

theorem completeHabit_NotFound_iff:
  "(fst (completeHabit habitId options now uid s) = Inl NotFound
      \<longleftrightarrow> habitId \<notin> h_id ` set (listHabits True s))
   \<and> (habitId \<notin> h_id ` set (listHabits True s)
      \<longrightarrow> snd (completeHabit habitId options now uid s) = s)
   \<and> (\<forall>h. getHabit habitId s = Some h \<and> h_archived h
             \<and> validTime (now + h_intervalMinutes h * 60000)
      \<longrightarrow> (\<exists>c. fst (completeHabit habitId options now uid s) = Inr c
              \<and> completions (snd (completeHabit habitId options now uid s)) = completions s @ [c]
              \<and> map_option h_dueAt (getHabit habitId (snd (completeHabit habitId options now uid s)))
                  = Some (now + h_intervalMinutes h * 60000)))
   \<and> (\<forall>h. getHabit habitId s = Some h \<and> h_archived h
             \<and> \<not> validTime (now + h_intervalMinutes h * 60000)
      \<longrightarrow> completeHabit habitId options now uid s = (Inl RangeError, s))"
proof -
  have ids: "set (listHabits True s) = set (habits s)"
    by (simp add: listHabits_def)
  show ?thesis
  proof (cases "getHabit habitId s")
    case None
    then have "habitId \<notin> h_id ` set (habits s)" by (simp add: getHabit_None_iff)
    with completeHabit_absent [OF None, of options now uid] None show ?thesis
      by (simp add: ids)
  next
    case (Some h)
    then have mem: "habitId \<in> h_id ` set (habits s)"
      using getHabit_None_iff [of habitId s] by auto
    show ?thesis
    proof (cases "validTime (now + h_intervalMinutes h * 60000)")
      case False
      from completeHabit_overflow [OF Some False, of options uid] mem Some False
      show ?thesis by (simp add: ids)
    next
      case True
      from completeHabit_present [OF Some True, of uid options]
      obtain i c where i: "findIndex (\<lambda>h. h_id h = habitId) (habits s) = Some i"
        and r: "completeHabit habitId options now uid s =
               (Inr c,
                s\<lparr>completions := completions s @ [c],
                  habits := (habits s)[i := h\<lparr>h_lastCompletedAt := Some now,
                                             h_lastReminderAt := None,
                                             h_dueAt := now + h_intervalMinutes h * 60000\<rparr>],
                  sessions := filter (\<lambda>e. ts_habitId e \<noteq> habitId) (sessions s)\<rparr>)"
        by auto
      from getHabit_findIndex [OF Some] have idh: "h_id h = habitId" by auto
      have g: "getHabit habitId (snd (completeHabit habitId options now uid s))
          = Some (h\<lparr>h_lastCompletedAt := Some now, h_lastReminderAt := None,
                     h_dueAt := now + h_intervalMinutes h * 60000\<rparr>)"
        by (rule getHabit_update [OF i]) (simp_all add: r idh)
      show ?thesis using mem Some True g r by (simp add: ids)
    qed
  qed
qed

theorem completeHabit_NotFound_iff_witness:
  "''h2'' \<notin> h_id ` set (listHabits True ex_archived_store)
   \<and> completeHabit ''h2'' \<lparr>o_durationSeconds = None, o_source = None\<rparr> 90000000 ''c1''
        ex_archived_store = (Inl NotFound, ex_archived_store)
   \<and> getHabit ''h1'' ex_archived_store = Some (ex_habit\<lparr>h_archived := True\<rparr>)
   \<and> validTime (90000000 + h_intervalMinutes (ex_habit\<lparr>h_archived := True\<rparr>) * 60000)
   \<and> fst (completeHabit ''h1'' \<lparr>o_durationSeconds = None, o_source = None\<rparr> 90000000 ''c1''
        ex_archived_store) \<noteq> Inl NotFound
   \<and> map_option h_dueAt (getHabit ''h1'' (snd (completeHabit ''h1''
        \<lparr>o_durationSeconds = None, o_source = None\<rparr> 90000000 ''c1'' ex_archived_store)))
       = Some 93600000"
proof -
  have a: "''h2'' \<notin> h_id ` set (listHabits True ex_archived_store)"
    by (simp add: listHabits_def ex_archived_store_def ex_habit_def)
  have b: "''h1'' \<in> h_id ` set (listHabits True ex_archived_store)"
    by (simp add: listHabits_def ex_archived_store_def ex_habit_def)
  have g: "getHabit ''h1'' ex_archived_store = Some (ex_habit\<lparr>h_archived := True\<rparr>)"
    by (simp add: getHabit_def ex_archived_store_def ex_habit_def)
  have v: "validTime (90000000 + h_intervalMinutes (ex_habit\<lparr>h_archived := True\<rparr>) * 60000)"
    by (simp add: validTime_def ex_habit_def)
  show ?thesis
    using completeHabit_NotFound_iff [of "''h2''" "\<lparr>o_durationSeconds = None, o_source = None\<rparr>"
            90000000 "''c1''" ex_archived_store]
          completeHabit_NotFound_iff [of "''h1''" "\<lparr>o_durationSeconds = None, o_source = None\<rparr>"
            90000000 "''c1''" ex_archived_store] v
    by (auto simp add: a b g prod_eq_iff ex_habit_def)
qed

section \<open>Stopping a timer\<close>

lemma secondsBetween_div:
  "secondsBetween startMs endMs = max 0 ((endMs - startMs) div 1000)"
proof -
  have "\<lfloor>real_of_int (endMs - startMs) / 1000\<rfloor> = (endMs - startMs) div 1000"
    using floor_divide_of_int_eq [of "endMs - startMs" 1000, where ?'a = real] by simp
  then show ?thesis by (simp add: secondsBetween_def)
qed

lemma find_session_Some:
  "find (\<lambda>e. ts_habitId e = habitId) xs = Some session
     \<Longrightarrow> session \<in> set xs \<and> ts_habitId session = habitId"
  by (induction xs) (auto split: if_splits)

lemma stopHabitTimer_found:
  assumes "find (\<lambda>e. ts_habitId e = habitId) (sessions s) = Some session"
  shows "stopHabitTimer habitId stopNow now uid s =
           completeHabit habitId
             \<lparr>o_durationSeconds = Some (real_of_int (secondsBetween (ts_startedAt session) stopNow)),
              o_source = Some Timer\<rparr>
             now uid (s\<lparr>sessions := filter (\<lambda>e. ts_id e \<noteq> ts_id session) (sessions s)\<rparr>)"
  using assms by (simp add: stopHabitTimer_def Let_def)

lemma getHabit_sessions_update [simp]: "getHabit habitId (s\<lparr>sessions := xs\<rparr>) = getHabit habitId s"
  by (simp add: getHabit_def)

text \<open>
  A session exists for a habit id that is not stored: stopping the timer produces no
  completion but fails with \<open>NotFound\<close>, the session already removed.
\<close>

theorem stopHabitTimer_orphan_counterexample:
  "find (\<lambda>e. ts_habitId e = ''h1'') (sessions ex_orphan_store) = Some ex_session
   \<and> stopHabitTimer ''h1'' 5000000 5000001 ''c1'' ex_orphan_store
       = (Inl NotFound, ex_orphan_store\<lparr>sessions := []\<rparr>)
   \<and> completions (snd (stopHabitTimer ''h1'' 5000000 5000001 ''c1'' ex_orphan_store)) = []"
  by (simp add: stopHabitTimer_def completeHabit_def ex_orphan_store_def ex_session_def Let_def)

text \<open>
  C5, as the code has it. \<open>stopHabitTimer\<close> fails with \<open>NoActiveTimer\<close> if and only if
  no session exists for the habit id. When a session exists it is removed from the
  sessions, whatever follows. When moreover the habit id is stored and
  \<open>now + intervalMinutes\<close> minutes is a valid time, the call produces a completion with
  source \<open>timer\<close> whose \<open>durationSeconds\<close> is the time from \<open>startedAt\<close> to the stop,
  floored to whole seconds and clamped at 0, appended to the completions. With the habit
  stored and that time not valid, the call throws a \<open>RangeError\<close> and records no
  completion.
\<close>

theorem stopHabitTimer_completes:
  "(fst (stopHabitTimer habitId stopNow now uid s) = Inl NoActiveTimer
      \<longleftrightarrow> find (\<lambda>e. ts_habitId e = habitId) (sessions s) = None)
   \<and> (\<forall>session. find (\<lambda>e. ts_habitId e = habitId) (sessions s) = Some session
        \<longrightarrow> session \<notin> set (sessions (snd (stopHabitTimer habitId stopNow now uid s))))
   \<and> (\<forall>session h. find (\<lambda>e. ts_habitId e = habitId) (sessions s) = Some session
                 \<and> getHabit habitId s = Some h
                 \<and> validTime (now + h_intervalMinutes h * 60000)
        \<longrightarrow> (\<exists>c. fst (stopHabitTimer habitId stopNow now uid s) = Inr c
                \<and> c_habitId c = habitId
                \<and> c_source c = Timer
                \<and> c_durationSeconds c = max 0 ((stopNow - ts_startedAt session) div 1000)
                \<and> completions (snd (stopHabitTimer habitId stopNow now uid s))
                    = completions s @ [c]))
   \<and> (\<forall>session h. find (\<lambda>e. ts_habitId e = habitId) (sessions s) = Some session
                 \<and> getHabit habitId s = Some h
                 \<and> \<not> validTime (now + h_intervalMinutes h * 60000)
        \<longrightarrow> fst (stopHabitTimer habitId stopNow now uid s) = Inl RangeError
          \<and> completions (snd (stopHabitTimer habitId stopNow now uid s)) = completions s)"
proof (cases "find (\<lambda>e. ts_habitId e = habitId) (sessions s)")
  case None
  then show ?thesis by (simp add: stopHabitTimer_def)
next
  case (Some session)
  let ?s1 = "s\<lparr>sessions := filter (\<lambda>e. ts_id e \<noteq> ts_id session) (sessions s)\<rparr>"
  let ?opts = "\<lparr>o_durationSeconds = Some (real_of_int (secondsBetween (ts_startedAt session) stopNow)),
              o_source = Some Timer\<rparr>"
  note st = stopHabitTimer_found [OF Some, of stopNow now uid]
  have absent: "stopHabitTimer habitId stopNow now uid s = (Inl NotFound, ?s1)"
    if "getHabit habitId s = None"
  proof -
    from that have "getHabit habitId ?s1 = None" by simp
    from completeHabit_absent [OF this, of ?opts now uid] show ?thesis by (simp add: st)
  qed
  have over: "stopHabitTimer habitId stopNow now uid s = (Inl RangeError, ?s1)"
    if "getHabit habitId s = Some h" "\<not> validTime (now + h_intervalMinutes h * 60000)" for h
  proof -
    from that have "getHabit habitId ?s1 = Some h" by simp
    from completeHabit_overflow [OF this that(2), of ?opts uid] show ?thesis by (simp add: st)
  qed
  have compl: "\<exists>c. fst (stopHabitTimer habitId stopNow now uid s) = Inr c
                \<and> c_habitId c = habitId
                \<and> c_source c = Timer
                \<and> c_durationSeconds c = max 0 ((stopNow - ts_startedAt session) div 1000)
                \<and> completions (snd (stopHabitTimer habitId stopNow now uid s))
                    = completions s @ [c]
                \<and> session \<notin> set (sessions (snd (stopHabitTimer habitId stopNow now uid s)))"
    if "getHabit habitId s = Some h" "validTime (now + h_intervalMinutes h * 60000)" for h
  proof -
    from that have "getHabit habitId ?s1 = Some h" by simp
    from completeHabit_present [OF this that(2), of uid ?opts] show ?thesis
      by (auto simp: st secondsBetween_div)
  qed
  have gone: "session \<notin> set (sessions (snd (stopHabitTimer habitId stopNow now uid s)))"
   and noact: "fst (stopHabitTimer habitId stopNow now uid s) \<noteq> Inl NoActiveTimer"
  proof -
    consider "getHabit habitId s = None"
      | h where "getHabit habitId s = Some h" "\<not> validTime (now + h_intervalMinutes h * 60000)"
      | h where "getHabit habitId s = Some h" "validTime (now + h_intervalMinutes h * 60000)"
      by (cases "getHabit habitId s") auto
    then have "session \<notin> set (sessions (snd (stopHabitTimer habitId stopNow now uid s)))
             \<and> fst (stopHabitTimer habitId stopNow now uid s) \<noteq> Inl NoActiveTimer"
    proof cases
      case 1
      from absent [OF 1] show ?thesis by simp
    next
      case 2
      from over [OF 2] show ?thesis by simp
    next
      case 3
      from compl [OF 3] show ?thesis by auto
    qed
    then show "session \<notin> set (sessions (snd (stopHabitTimer habitId stopNow now uid s)))"
      and "fst (stopHabitTimer habitId stopNow now uid s) \<noteq> Inl NoActiveTimer" by simp_all
  qed
  have over': "fst (stopHabitTimer habitId stopNow now uid s) = Inl RangeError
          \<and> completions (snd (stopHabitTimer habitId stopNow now uid s)) = completions s"
    if "getHabit habitId s = Some h" "\<not> validTime (now + h_intervalMinutes h * 60000)" for h
    using over [OF that] by simp
  show ?thesis using Some gone noact compl over' by auto
qed

theorem stopHabitTimer_completes_witness:
  "find (\<lambda>e. ts_habitId e = ''h1'') (sessions ex_store) = Some ex_session
   \<and> getHabit ''h1'' ex_store = Some ex_habit
   \<and> validTime (4090600 + h_intervalMinutes ex_habit * 60000)
   \<and> map c_durationSeconds (completions (snd (stopHabitTimer ''h1'' 4090500 4090600 ''c1'' ex_store)))
       = [90]
   \<and> map c_source (completions (snd (stopHabitTimer ''h1'' 4090500 4090600 ''c1'' ex_store)))
       = [Timer]
   \<and> ex_session \<notin> set (sessions (snd (stopHabitTimer ''h1'' 4090500 4090600 ''c1'' ex_store)))
   \<and> find (\<lambda>e. ts_habitId e = ''h2'') (sessions ex_store) = None
   \<and> fst (stopHabitTimer ''h2'' 4090500 4090600 ''c1'' ex_store) = Inl NoActiveTimer"
proof -
  have f: "find (\<lambda>e. ts_habitId e = ''h1'') (sessions ex_store) = Some ex_session"
    by (simp add: ex_store_def ex_session_def)
  have g: "getHabit ''h1'' ex_store = Some ex_habit"
    by (simp add: getHabit_def ex_store_def ex_habit_def)
  have n: "find (\<lambda>e. ts_habitId e = ''h2'') (sessions ex_store) = None"
    by (simp add: ex_store_def ex_session_def)
  have c: "completions ex_store = []" by (simp add: ex_store_def)
  have t: "ts_startedAt ex_session = 4000000" by (simp add: ex_session_def)
  have v: "validTime (4090600 + h_intervalMinutes ex_habit * 60000)"
    by (simp add: validTime_def ex_habit_def)
  show ?thesis
    using stopHabitTimer_completes [of "''h1''" 4090500 4090600 "''c1''" ex_store]
          stopHabitTimer_completes [of "''h2''" 4090500 4090600 "''c1''" ex_store]
    by (auto simp add: f g n c t v)
qed

text \<open>
  C10. When a session exists for a habit id that is not among the stored habits,
  \<open>stopHabitTimer\<close> first writes the sessions without that session and then fails with
  \<open>NotFound\<close> from the nested \<open>completeHabit\<close>: the error comes with a changed store.
\<close>

theorem stopHabitTimer_not_atomic:
  assumes "find (\<lambda>e. ts_habitId e = habitId) (sessions s) = Some session"
      and "habitId \<notin> h_id ` set (habits s)"
  shows "stopHabitTimer habitId stopNow now uid s
           = (Inl NotFound, s\<lparr>sessions := filter (\<lambda>e. ts_id e \<noteq> ts_id session) (sessions s)\<rparr>)
         \<and> session \<in> set (sessions s)
         \<and> session \<notin> set (sessions (snd (stopHabitTimer habitId stopNow now uid s)))
         \<and> snd (stopHabitTimer habitId stopNow now uid s) \<noteq> s"
proof -
  let ?s1 = "s\<lparr>sessions := filter (\<lambda>e. ts_id e \<noteq> ts_id session) (sessions s)\<rparr>"
  from assms(2) have "getHabit habitId ?s1 = None"
    by (simp add: getHabit_None_iff)
  from completeHabit_absent [OF this] stopHabitTimer_found [OF assms(1)]
  have r: "stopHabitTimer habitId stopNow now uid s = (Inl NotFound, ?s1)" by simp
  from find_session_Some [OF assms(1)] have mem: "session \<in> set (sessions s)" by simp
  have out: "session \<notin> set (sessions ?s1)" by simp
  with mem have "?s1 \<noteq> s" by metis
  with r mem out show ?thesis by simp
qed

theorem stopHabitTimer_not_atomic_witness:
  "find (\<lambda>e. ts_habitId e = ''h1'') (sessions ex_orphan_store) = Some ex_session
   \<and> ''h1'' \<notin> h_id ` set (habits ex_orphan_store)
   \<and> fst (stopHabitTimer ''h1'' 5000000 5000001 ''c1'' ex_orphan_store) = Inl NotFound
   \<and> sessions ex_orphan_store = [ex_session]
   \<and> sessions (snd (stopHabitTimer ''h1'' 5000000 5000001 ''c1'' ex_orphan_store)) = []"
proof -
  have f: "find (\<lambda>e. ts_habitId e = ''h1'') (sessions ex_orphan_store) = Some ex_session"
    by (simp add: ex_orphan_store_def ex_session_def)
  have a: "''h1'' \<notin> h_id ` set (habits ex_orphan_store)"
    by (simp add: ex_orphan_store_def)
  have l: "sessions ex_orphan_store = [ex_session]" by (simp add: ex_orphan_store_def)
  from stopHabitTimer_not_atomic [OF f a, of 5000000 5000001 "''c1''"] f a l
  show ?thesis by simp
qed

section \<open>Starting a timer\<close>

lemma find_append_new:
  "find P xs = None \<Longrightarrow> P x \<Longrightarrow> find P (xs @ [x]) = Some x"
  by (induction xs) (auto split: if_splits)

text \<open>
  C6. \<open>startHabitTimer\<close> is idempotent: with a session for the habit id it returns that
  session and the store as it was; only without one does it append a new session with
  \<open>startedAt = now\<close>. A second call right after the first returns the same session and
  the same store, whatever the clock and the id generator give it.
\<close>

theorem startHabitTimer_idempotent:
  "(\<forall>existing. find (\<lambda>e. ts_habitId e = habitId) (sessions s) = Some existing
       \<longrightarrow> startHabitTimer habitId now uid s = (existing, s))
   \<and> (find (\<lambda>e. ts_habitId e = habitId) (sessions s) = None
       \<longrightarrow> startHabitTimer habitId now uid s
            = (\<lparr>ts_id = uid, ts_habitId = habitId, ts_startedAt = now\<rparr>,
               s\<lparr>sessions := sessions s @ [\<lparr>ts_id = uid, ts_habitId = habitId, ts_startedAt = now\<rparr>]\<rparr>))
   \<and> startHabitTimer habitId now' uid' (snd (startHabitTimer habitId now uid s))
       = startHabitTimer habitId now uid s"
proof (cases "find (\<lambda>e. ts_habitId e = habitId) (sessions s)")
  case None
  let ?new = "\<lparr>ts_id = uid, ts_habitId = habitId, ts_startedAt = now\<rparr>"
  have first: "startHabitTimer habitId now uid s = (?new, s\<lparr>sessions := sessions s @ [?new]\<rparr>)"
    using None by (simp add: startHabitTimer_def Let_def)
  have "find (\<lambda>e. ts_habitId e = habitId) (sessions s @ [?new]) = Some ?new"
    by (rule find_append_new [OF None]) simp
  then have "startHabitTimer habitId now' uid' (s\<lparr>sessions := sessions s @ [?new]\<rparr>)
               = (?new, s\<lparr>sessions := sessions s @ [?new]\<rparr>)"
    by (simp add: startHabitTimer_def)
  with first None show ?thesis by simp
next
  case (Some existing)
  then show ?thesis by (simp add: startHabitTimer_def)
qed

theorem startHabitTimer_idempotent_witness:
  "find (\<lambda>e. ts_habitId e = ''h1'') (sessions ex_store) = Some ex_session
   \<and> startHabitTimer ''h1'' 5000000 ''s2'' ex_store = (ex_session, ex_store)
   \<and> find (\<lambda>e. ts_habitId e = ''h2'') (sessions ex_store) = None
   \<and> sessions (snd (startHabitTimer ''h2'' 5000000 ''s2'' ex_store))
       = [ex_session, \<lparr>ts_id = ''s2'', ts_habitId = ''h2'', ts_startedAt = 5000000\<rparr>]
   \<and> startHabitTimer ''h2'' 6000000 ''s3'' (snd (startHabitTimer ''h2'' 5000000 ''s2'' ex_store))
       = startHabitTimer ''h2'' 5000000 ''s2'' ex_store"
proof -
  have f: "find (\<lambda>e. ts_habitId e = ''h1'') (sessions ex_store) = Some ex_session"
    by (simp add: ex_store_def ex_session_def)
  have n: "find (\<lambda>e. ts_habitId e = ''h2'') (sessions ex_store) = None"
    by (simp add: ex_store_def ex_session_def)
  have l: "sessions ex_store = [ex_session]" by (simp add: ex_store_def)
  have a: "startHabitTimer ''h1'' 5000000 ''s2'' ex_store = (ex_session, ex_store)"
    using startHabitTimer_idempotent [of "''h1''" ex_store 5000000 "''s2''" 6000000 "''s3''"] f
    by simp
  have b: "sessions (snd (startHabitTimer ''h2'' 5000000 ''s2'' ex_store))
       = [ex_session, \<lparr>ts_id = ''s2'', ts_habitId = ''h2'', ts_startedAt = 5000000\<rparr>]"
    using startHabitTimer_idempotent [of "''h2''" ex_store 5000000 "''s2''" 6000000 "''s3''"] n
    by (simp add: l)
  have c: "startHabitTimer ''h2'' 6000000 ''s3'' (snd (startHabitTimer ''h2'' 5000000 ''s2'' ex_store))
       = startHabitTimer ''h2'' 5000000 ''s2'' ex_store"
    using startHabitTimer_idempotent [of "''h2''" ex_store 5000000 "''s2''" 6000000 "''s3''"]
    by simp
  from f n a b c show ?thesis by simp
qed

section \<open>The due time is never moved into the past\<close>

text \<open>
  Postponing the habit by 600 minutes at time 0 puts its due time at 39600000; the
  completion at time 1000 that follows succeeds and puts it at 3601000, earlier than it
  was: a completion does not always advance the due time.
\<close>

theorem completeHabit_moves_dueAt_back_counterexample:
  "0 < h_intervalMinutes ex_habit
   \<and> map h_dueAt (habits (snd (postponeHabit ''h1'' 600 0 ''p1'' ex_store))) = [39600000]
   \<and> fst (completeHabit ''h1'' \<lparr>o_durationSeconds = None, o_source = None\<rparr> 1000 ''c1''
           (snd (postponeHabit ''h1'' 600 0 ''p1'' ex_store)))
       = Inr \<lparr>c_id = ''c1'', c_habitId = ''h1'', c_completedAt = 1000,
               c_durationSeconds = 0, c_source = Manual\<rparr>
   \<and> map h_dueAt (habits (snd (completeHabit ''h1'' \<lparr>o_durationSeconds = None, o_source = None\<rparr>
           1000 ''c1'' (snd (postponeHabit ''h1'' 600 0 ''p1'' ex_store))))) = [3601000]"
  by (simp add: postponeHabit_def completeHabit_def ex_store_def ex_habit_def validTime_def Let_def)

text \<open>
  C7, as the code has it. The due time is never moved into the past: after a successful
  \<open>completeHabit\<close> of a stored habit with a positive interval it is strictly later than
  the call's \<open>now\<close>; after a successful \<open>postponeHabit\<close> of a stored habit it is strictly
  later than the call's \<open>now\<close> and strictly later than it was; and a habit created from
  a draft with a positive interval has \<open>dueAt\<close> no earlier than \<open>createdAt\<close>, the clock
  not running backwards between the two reads of the creating branch. (A completion sets
  the due time to \<open>now + intervalMinutes\<close>, which may be earlier than it was.)
\<close>

theorem dueAt_never_in_the_past:
  "(\<forall>h c. getHabit habitId s = Some h \<and> 0 < h_intervalMinutes h
            \<and> fst (completeHabit habitId options now uid s) = Inr c
        \<longrightarrow> (\<exists>h'. getHabit habitId (snd (completeHabit habitId options now uid s)) = Some h'
                  \<and> h_dueAt h' = now + h_intervalMinutes h * 60000
                  \<and> now < h_dueAt h'))
   \<and> (\<forall>h u. getHabit habitId s = Some h
            \<and> fst (postponeHabit habitId minutes now uid s) = Inr u
        \<longrightarrow> getHabit habitId (snd (postponeHabit habitId minutes now uid s)) = Some u
          \<and> now < h_dueAt u \<and> h_dueAt h < h_dueAt u)
   \<and> (\<forall>h'. 0 < d_intervalMinutes draft \<and> createdNow \<le> dateNow
            \<and> fst (upsertHabit draft None createdNow dateNow uid s) = Inr h'
        \<longrightarrow> h_createdAt h' = createdNow \<and> h_createdAt h' \<le> h_dueAt h')"
proof -
  have c: "\<exists>h'. getHabit habitId (snd (completeHabit habitId options now uid s)) = Some h'
                  \<and> h_dueAt h' = now + h_intervalMinutes h * 60000
                  \<and> now < h_dueAt h'"
    if present: "getHabit habitId s = Some h" and interval: "0 < h_intervalMinutes h"
      and ok: "fst (completeHabit habitId options now uid s) = Inr c" for h c
  proof -
    from getHabit_findIndex [OF present]
    obtain i where i: "findIndex (\<lambda>h. h_id h = habitId) (habits s) = Some i"
      and hi: "habits s ! i = h" and idh: "h_id h = habitId" by auto
    have v: "validTime (now + h_intervalMinutes h * 60000)"
    proof (rule ccontr)
      assume "\<not> validTime (now + h_intervalMinutes h * 60000)"
      from completeHabit_overflow [OF present this, of options uid] ok show False by simp
    qed
    let ?hc = "h\<lparr>h_lastCompletedAt := Some now, h_lastReminderAt := None,
                  h_dueAt := now + h_intervalMinutes h * 60000\<rparr>"
    have "getHabit habitId (snd (completeHabit habitId options now uid s)) = Some ?hc"
      by (rule getHabit_update [OF i]) (simp_all add: completeHabit_def Let_def i hi idh v)
    moreover have "h_dueAt ?hc = now + h_intervalMinutes h * 60000 \<and> now < h_dueAt ?hc"
      using interval by simp
    ultimately show ?thesis by blast
  qed
  have p: "getHabit habitId (snd (postponeHabit habitId minutes now uid s)) = Some u
          \<and> now < h_dueAt u \<and> h_dueAt h < h_dueAt u"
    if present: "getHabit habitId s = Some h"
      and ok: "fst (postponeHabit habitId minutes now uid s) = Inr u" for h u
  proof -
    from getHabit_findIndex [OF present]
    obtain i where i: "findIndex (\<lambda>h. h_id h = habitId) (habits s) = Some i"
      and hi: "habits s ! i = h" and idh: "h_id h = habitId" by auto
    let ?m = "max 1 \<lfloor>minutes\<rfloor>"
    let ?base = "if h_dueAt h > now then h_dueAt h else now"
    let ?hp = "h\<lparr>h_dueAt := ?base + ?m * 60000, h_lastReminderAt := None\<rparr>"
    have v: "validTime (?base + ?m * 60000)"
    proof (rule ccontr)
      assume "\<not> validTime (?base + ?m * 60000)"
      then have "fst (postponeHabit habitId minutes now uid s) = Inl RangeError"
        by (simp add: postponeHabit_def Let_def i hi)
      with ok show False by simp
    qed
    have u: "u = ?hp"
      using ok v by (simp add: postponeHabit_def Let_def i hi)
    have "getHabit habitId (snd (postponeHabit habitId minutes now uid s)) = Some ?hp"
      by (rule getHabit_update [OF i]) (simp_all add: postponeHabit_def Let_def i hi idh v)
    moreover have "now < h_dueAt ?hp \<and> h_dueAt h < h_dueAt ?hp" by auto
    ultimately show ?thesis unfolding u by blast
  qed
  have n: "h_createdAt h' = createdNow \<and> h_createdAt h' \<le> h_dueAt h'"
    if "0 < d_intervalMinutes draft" "createdNow \<le> dateNow"
      and "fst (upsertHabit draft None createdNow dateNow uid s) = Inr h'" for h'
    using that by (auto simp: upsertHabit_def Let_def split: if_splits)
  from c p n show ?thesis by blast
qed

theorem dueAt_never_in_the_past_witness:
  "getHabit ''h1'' ex_store = Some ex_habit
   \<and> 0 < h_intervalMinutes ex_habit
   \<and> fst (completeHabit ''h1'' \<lparr>o_durationSeconds = None, o_source = None\<rparr> 90000000 ''u1'' ex_store)
       = Inr \<lparr>c_id = ''u1'', c_habitId = ''h1'', c_completedAt = 90000000,
               c_durationSeconds = 0, c_source = Manual\<rparr>
   \<and> map_option h_dueAt (getHabit ''h1'' (snd (completeHabit ''h1''
          \<lparr>o_durationSeconds = None, o_source = None\<rparr> 90000000 ''u1'' ex_store))) = Some 93600000
   \<and> fst (postponeHabit ''h1'' 10 90000000 ''u1'' ex_store)
       = Inr (ex_habit\<lparr>h_dueAt := 90600000, h_lastReminderAt := None\<rparr>)
   \<and> getHabit ''h1'' (snd (postponeHabit ''h1'' 10 90000000 ''u1'' ex_store))
       = Some (ex_habit\<lparr>h_dueAt := 90600000, h_lastReminderAt := None\<rparr>)
   \<and> 0 < d_intervalMinutes ex_draft
   \<and> (7000000 :: int) \<le> 7000001
   \<and> map h_createdAt (habits (snd (upsertHabit ex_draft None 7000000 7000001 ''u1''
          \<lparr>habits = [], sessions = [], completions = [], postpones = []\<rparr>))) = [7000000]
   \<and> map h_dueAt (habits (snd (upsertHabit ex_draft None 7000000 7000001 ''u1''
          \<lparr>habits = [], sessions = [], completions = [], postpones = []\<rparr>))) = [8800001]"
proof -
  let ?opts = "\<lparr>o_durationSeconds = None, o_source = None\<rparr>"
  let ?e = "\<lparr>habits = [], sessions = [], completions = [], postpones = []\<rparr>"
  have g: "getHabit ''h1'' ex_store = Some ex_habit"
    by (simp add: getHabit_def ex_store_def ex_habit_def)
  have i: "0 < h_intervalMinutes ex_habit" by (simp add: ex_habit_def)
  have d: "0 < d_intervalMinutes ex_draft" by (simp add: ex_draft_def)
  have e1: "fst (completeHabit ''h1'' ?opts 90000000 ''u1'' ex_store)
       = Inr \<lparr>c_id = ''u1'', c_habitId = ''h1'', c_completedAt = 90000000,
               c_durationSeconds = 0, c_source = Manual\<rparr>"
    by (simp add: completeHabit_def ex_store_def ex_habit_def validTime_def Let_def)
  have e2: "fst (postponeHabit ''h1'' 10 90000000 ''u1'' ex_store)
       = Inr (ex_habit\<lparr>h_dueAt := 90600000, h_lastReminderAt := None\<rparr>)"
    by (simp add: postponeHabit_def ex_store_def ex_habit_def validTime_def Let_def)
  have e3: "map h_createdAt (habits (snd (upsertHabit ex_draft None 7000000 7000001 ''u1'' ?e)))
       = [7000000]"
    by (simp add: upsertHabit_def ex_draft_def validTime_def Let_def)
  have e4: "map h_dueAt (habits (snd (upsertHabit ex_draft None 7000000 7000001 ''u1'' ?e)))
       = [8800001]"
    by (simp add: upsertHabit_def ex_draft_def validTime_def Let_def)
  note inst = dueAt_never_in_the_past [of "''h1''" ex_store ?opts 90000000 "''u1''" 10 ex_draft
      7000000 7000001]
  from inst g i e1 e2
  have a: "map_option h_dueAt (getHabit ''h1'' (snd (completeHabit ''h1'' ?opts 90000000 ''u1''
             ex_store))) = Some 93600000"
    and b: "getHabit ''h1'' (snd (postponeHabit ''h1'' 10 90000000 ''u1'' ex_store))
       = Some (ex_habit\<lparr>h_dueAt := 90600000, h_lastReminderAt := None\<rparr>)"
    by (auto simp: ex_habit_def)
  from g i d e1 e2 e3 e4 a b show ?thesis by simp
qed

section \<open>Creating, then listing\<close>

text \<open>
  C8. Creating a habit under a fresh id succeeds exactly when its due time is a valid
  time; after a creation, the listing of active habits holds the new habit exactly once,
  holds no archived habit, holds every habit listed before, and is sorted by ascending
  \<open>dueAt\<close>.
\<close>

theorem create_then_list:
  assumes fresh: "uid \<notin> h_id ` set (habits s)"
  shows "((\<exists>h. fst (upsertHabit draft None now dateNow uid s) = Inr h)
            \<longleftrightarrow> validTime (dateNow + d_intervalMinutes draft * 60000))
       \<and> (\<forall>h. fst (upsertHabit draft None now dateNow uid s) = Inr h
            \<longrightarrow> h_id h = uid
              \<and> filter (\<lambda>x. h_id x = uid)
                   (listHabits False (snd (upsertHabit draft None now dateNow uid s))) = [h]
              \<and> length (filter (\<lambda>x. x = h)
                   (listHabits False (snd (upsertHabit draft None now dateNow uid s)))) = 1
              \<and> set (listHabits False (snd (upsertHabit draft None now dateNow uid s)))
                  = insert h (set (listHabits False s))
              \<and> (\<forall>x \<in> set (listHabits False (snd (upsertHabit draft None now dateNow uid s))).
                    \<not> h_archived x)
              \<and> sorted (map h_dueAt
                   (listHabits False (snd (upsertHabit draft None now dateNow uid s)))))"
proof (cases "validTime (dateNow + d_intervalMinutes draft * 60000)")
  case False
  then have "upsertHabit draft None now dateNow uid s = (Inl RangeError, s)"
    by (simp add: upsertHabit_def)
  with False show ?thesis by simp
next
  case True
  define h where "h = \<lparr>h_id = uid,
                 h_name = d_name draft,
                 h_type = d_type draft,
                 h_intervalMinutes = d_intervalMinutes draft,
                 h_targetRepetitionsPerDay = d_targetRepetitionsPerDay draft,
                 h_expectedDurationMinutes = d_expectedDurationMinutes draft,
                 h_notes = d_notes draft,
                 h_createdAt = now,
                 h_dueAt = dateNow + d_intervalMinutes draft * 60000,
                 h_lastCompletedAt = None,
                 h_lastReminderAt = None,
                 h_archived = False\<rparr>"
  have r: "upsertHabit draft None now dateNow uid s = (Inr h, s\<lparr>habits := habits s @ [h]\<rparr>)"
    using True by (simp add: upsertHabit_def h_def Let_def)
  have hid: "h_id h = uid" and live: "\<not> h_archived h" by (simp_all add: h_def)
  let ?l = "listHabits False (s\<lparr>habits := habits s @ [h]\<rparr>)"
  have l: "?l = sort_key h_dueAt (filter (\<lambda>h. \<not> h_archived h) (habits s) @ [h])"
    using live by (simp add: listHabits_def)
  have none: "filter (\<lambda>x. h_id x = uid) (habits s) = []"
    using fresh by (auto simp: filter_empty_conv)
  have none': "filter (\<lambda>x. x = h) (habits s) = []"
    using fresh hid by (auto simp: filter_empty_conv)
  have one: "filter (\<lambda>x. h_id x = uid) ?l = [h]"
    unfolding l filter_sort using none hid
    by (simp add: filter_empty_conv)
  have once: "length (filter (\<lambda>x. x = h) ?l) = 1"
    unfolding l filter_sort using none'
    by (simp add: filter_empty_conv)
  have mem: "set ?l = insert h (set (listHabits False s))"
    using live by (auto simp: l listHabits_def)
  have arch: "\<forall>x \<in> set ?l. \<not> h_archived x"
    using live by (auto simp: l)
  have srt: "sorted (map h_dueAt ?l)"
    unfolding l by (rule sorted_sort_key)
  from True r hid one once mem arch srt show ?thesis by simp
qed

theorem create_then_list_witness:
  "''h2'' \<notin> h_id ` set (habits ex_store)
   \<and> validTime (7000001 + d_intervalMinutes ex_draft * 60000)
   \<and> map h_id (listHabits False (snd (upsertHabit ex_draft None 7000000 7000001 ''h2'' ex_store)))
       = [''h1'', ''h2'']
   \<and> validTime (1000001 + d_intervalMinutes ex_draft * 60000)
   \<and> map h_dueAt (listHabits False (snd (upsertHabit ex_draft None 1000000 1000001 ''h2'' ex_store)))
       = [2800001, 3600000]
   \<and> map h_id (listHabits False (snd (upsertHabit ex_draft None 1000000 1000001 ''h2'' ex_store)))
       = [''h2'', ''h1'']"
proof -
  have a: "''h2'' \<notin> h_id ` set (habits ex_store)"
    by (simp add: ex_store_def ex_habit_def)
  have v: "validTime (7000001 + d_intervalMinutes ex_draft * 60000)"
          "validTime (1000001 + d_intervalMinutes ex_draft * 60000)"
    by (simp_all add: validTime_def ex_draft_def)
  have e1: "map h_id (listHabits False (snd (upsertHabit ex_draft None 7000000 7000001 ''h2'' ex_store)))
       = [''h1'', ''h2'']"
    by (simp add: listHabits_def upsertHabit_def ex_store_def ex_habit_def ex_draft_def
          validTime_def Let_def)
  have e2: "map h_dueAt (listHabits False (snd (upsertHabit ex_draft None 1000000 1000001 ''h2'' ex_store)))
       = [2800001, 3600000]"
    by (simp add: listHabits_def upsertHabit_def ex_store_def ex_habit_def ex_draft_def
          validTime_def Let_def)
  have e3: "map h_id (listHabits False (snd (upsertHabit ex_draft None 1000000 1000001 ''h2'' ex_store)))
       = [''h2'', ''h1'']"
    by (simp add: listHabits_def upsertHabit_def ex_store_def ex_habit_def ex_draft_def
          validTime_def Let_def)
  from create_then_list [OF a, of ex_draft 7000000 7000001] a v e1 e2 e3
  show ?thesis by simp
qed

section \<open>Relative due time\<close>

lemma Math_round_minutes:
  "Math_round (real_of_int d / 60000) = (d + 30000) div 60000"
proof -
  have e: "real_of_int d / 60000 + 1 / 2 = real_of_int (d + 30000) / real_of_int 60000"
    by (simp add: field_simps)
  show ?thesis
    unfolding Math_round_def e by (rule floor_divide_of_int_eq)
qed

lemma rounds_to_zero_iff:
  "\<bar>(d + 30000) div 60000\<bar> < 1 \<longleftrightarrow> - 30000 \<le> d \<and> d < (30000 :: int)"
proof -
  have "\<bar>(d + 30000) div 60000\<bar> < 1 \<longleftrightarrow> (d + 30000) div 60000 = 0" by linarith
  also have "\<dots> \<longleftrightarrow> 0 \<le> d + 30000 \<and> d + 30000 < 60000"
    by (simp add: div_eq_0_iff) linarith
  finally show ?thesis by auto
qed

text \<open>
  A due time 45 seconds away, within one minute of \<open>now\<close> on either side, is not
  reported as \<open>''now''\<close>.
\<close>

theorem formatRelativeDue_counterexample:
  "\<bar>45000 - 0\<bar> \<le> (60000 :: int)
   \<and> formatRelativeDue 45000 0 = ''in 1m''
   \<and> formatRelativeDue 45000 0 \<noteq> ''now''
   \<and> formatRelativeDue 0 45000 = ''1m overdue''"
  by (simp add: formatRelativeDue_def Math_round_minutes Let_def numberToString.simps)

text \<open>
  C9, as the code has it. \<open>formatRelativeDue\<close> rounds the difference to whole minutes
  and returns \<open>''now''\<close> exactly when it rounds to zero, that is from 30 seconds before
  \<open>now\<close> up to, but not including, 30 seconds after. Otherwise, with \<open>m\<close> the rounded
  number of minutes, the label is \<open>Xh Ym\<close> when \<open>m\<close> is at least 60 and \<open>Ym\<close>
  below, and the result is the label after \<open>''in ''\<close> for a future due time and before
  \<open>'' overdue''\<close> for a past one.
\<close>

theorem formatRelativeDue_rounds:
  "formatRelativeDue dueAt now =
     (let d = dueAt - now;
          m = \<bar>(d + 30000) div 60000\<bar>;
          label = (if 60 \<le> m
                   then numberToString (nat (m div 60)) @ ''h '' @ numberToString (nat (m mod 60)) @ ''m''
                   else numberToString (nat m) @ ''m'')
      in if - 30000 \<le> d \<and> d < 30000 then ''now''
         else if d < 0 then label @ '' overdue'' else ''in '' @ label)
   \<and> (formatRelativeDue dueAt now = ''now'' \<longleftrightarrow> - 30000 \<le> dueAt - now \<and> dueAt - now < 30000)"
proof -
  define d where "d = dueAt - now"
  define m where "m = \<bar>(d + 30000) div 60000\<bar>"
  define label where "label = (if 60 \<le> m
                   then numberToString (nat (m div 60)) @ ''h '' @ numberToString (nat (m mod 60)) @ ''m''
                   else numberToString (nat m) @ ''m'')"
  have m0: "0 \<le> m" by (simp add: m_def)
  have hours: "m div 60 > 0 \<longleftrightarrow> 60 \<le> m"
    using m0 by (simp add: pos_imp_zdiv_pos_iff)
  have small: "\<not> 60 \<le> m \<Longrightarrow> m mod 60 = m" using m0 by simp
  have code: "formatRelativeDue dueAt now =
      (if m < 1 then ''now'' else if d < 0 then label @ '' overdue'' else ''in '' @ label)"
    unfolding formatRelativeDue_def Let_def Math_round_minutes d_def [symmetric] m_def [symmetric]
    using small hours by (simp add: label_def)
  have zero: "m < 1 \<longleftrightarrow> - 30000 \<le> d \<and> d < 30000"
    unfolding m_def by (rule rounds_to_zero_iff)
  have eq: "formatRelativeDue dueAt now =
      (if - 30000 \<le> d \<and> d < 30000 then ''now''
       else if d < 0 then label @ '' overdue'' else ''in '' @ label)"
    using code zero by simp
  have ne1: "label @ '' overdue'' \<noteq> ''now''"
  proof
    assume "label @ '' overdue'' = ''now''"
    then have "length (label @ '' overdue'') = length ''now''" by simp
    then show False by simp
  qed
  have ne2: "''in '' @ label \<noteq> ''now''" by simp
  have iff: "formatRelativeDue dueAt now = ''now'' \<longleftrightarrow> - 30000 \<le> d \<and> d < 30000"
    using eq ne1 ne2 by auto
  show ?thesis
    unfolding Let_def d_def [symmetric] m_def [symmetric]
    using eq iff by (simp add: label_def)
qed

theorem formatRelativeDue_rounds_witness:
  "formatRelativeDue 29999 0 = ''now''
   \<and> formatRelativeDue (- 30000) 0 = ''now''
   \<and> formatRelativeDue 30000 0 = ''in 1m''
   \<and> formatRelativeDue 0 7500000 = ''2h 5m overdue''"
  using formatRelativeDue_rounds [of 29999 0] formatRelativeDue_rounds [of "- 30000" 0]
        formatRelativeDue_rounds [of 30000 0] formatRelativeDue_rounds [of 0 7500000]
  by (simp add: Let_def numberToString.simps)

end
